theory Spec2Isabelle
  imports Complex_Main
begin

section \<open>Data model: the table held by the dashboard\<close>

text \<open>
  The program (\<^verbatim>\<open>power.py\<close>) keeps its data in a pandas data frame. A frame is
  modelled by its column labels, in order, and its rows, in order; a row gives the
  cell of every column by the column's label. Cells are dynamically typed, as the
  values of a frame read from a CSV file are: a missing value (\<open>NaN\<close>), a string,
  a float or an integer. Floats are idealised as real numbers (no rounding, no
  infinities), and 64-bit integers as unbounded integers.

  Strings are byte strings in UTF-8: the month label written "3" followed by the
  CJK character for month is the four bytes \<open>0x33 0xE6 0x9C 0x88\<close>. UTF-8 is injective,
  so equality and membership of labels are those of Python's strings.
\<close>

datatype cell = NaN | Str string | Num real | IntV int

type_synonym row = "string \<Rightarrow> cell"

record frame =
  columns :: "string list"
  rows :: "row list"

text \<open>
  Exceptions of the Python program, as values. \<open>ValueError missing\<close> is the error
  raised by line 12 of \<^verbatim>\<open>load_data\<close>, whose message lists the missing columns.
\<close>

datatype py_error =
    ValueError "string list"
  | KeyError string
  | FileNotFoundError string
  | IntCastingNaNError
  | TypeError
  | ZeroDivisionError
  | NameError string

section \<open>The pandas operations the program calls\<close>

text \<open>
  \<^verbatim>\<open>pd.read_csv(path)\<close>: the file system maps a path to the table parsed from the
  file there; a path with no file raises \<^verbatim>\<open>FileNotFoundError\<close>.
\<close>

definition read_csv :: "(string \<rightharpoonup> frame) \<Rightarrow> string \<Rightarrow> py_error + frame" where
  "read_csv fs path = (case fs path of None \<Rightarrow> Inl (FileNotFoundError path) | Some df \<Rightarrow> Inr df)"

text \<open>\<^verbatim>\<open>df[name]\<close>: the column of that label, or \<^verbatim>\<open>KeyError\<close>.\<close>

definition getitem :: "frame \<Rightarrow> string \<Rightarrow> py_error + cell list" where
  "getitem df name =
     (if name \<in> set (columns df) then Inr (map (\<lambda>r. r name) (rows df)) else Inl (KeyError name))"

text \<open>
  \<^verbatim>\<open>df[name] = values\<close>: replaces the column (or appends it when the label is new);
  the values are aligned with the rows by position.
\<close>

definition setitem :: "frame \<Rightarrow> string \<Rightarrow> cell list \<Rightarrow> frame" where
  "setitem df name vals =
     \<lparr> columns = (if name \<in> set (columns df) then columns df else columns df @ [name]),
       rows = map2 (\<lambda>r v. r(name := v)) (rows df) vals \<rparr>"

text \<open>
  \<^verbatim>\<open>pd.to_numeric(series, errors="coerce")\<close>, cell by cell. How a string is read as
  a number is pandas' business, not the program's: it is the parameter \<open>parse\<close>, which
  gives \<open>None\<close> for a string that is not a number. With \<^verbatim>\<open>errors="coerce"\<close> such a
  string becomes \<open>NaN\<close>. The numbers are real numbers: a string that pandas reads
  as an infinity, and the failure of the integer cast on it, are outside the model.
\<close>

definition to_numeric :: "(string \<Rightarrow> real option) \<Rightarrow> cell \<Rightarrow> cell" where
  "to_numeric parse c =
     (case c of
        NaN \<Rightarrow> NaN
      | Str s \<Rightarrow> (case parse s of None \<Rightarrow> NaN | Some x \<Rightarrow> Num x)
      | Num x \<Rightarrow> Num x
      | IntV i \<Rightarrow> IntV i)"

text \<open>\<^verbatim>\<open>df.dropna(subset=[name])\<close>: the rows whose cell in that column is not missing.\<close>

definition dropna :: "frame \<Rightarrow> string \<Rightarrow> frame" where
  "dropna df name = df\<lparr>rows := filter (\<lambda>r. r name \<noteq> NaN) (rows df)\<rparr>"

text \<open>
  \<^verbatim>\<open>series.astype(int)\<close>: a float is cut towards zero, a missing value cannot be
  cast. (A string would be read by Python's \<^verbatim>\<open>int\<close>; no string reaches the cast in
  this program, and the model reports \<^verbatim>\<open>TypeError\<close> there.)
\<close>

definition trunc_toward_zero :: "real \<Rightarrow> int" where
  "trunc_toward_zero x = (if 0 \<le> x then \<lfloor>x\<rfloor> else \<lceil>x\<rceil>)"

fun astype_int_cell :: "cell \<Rightarrow> py_error + cell" where
  "astype_int_cell NaN = Inl IntCastingNaNError"
| "astype_int_cell (Str s) = Inl TypeError"
| "astype_int_cell (Num x) = Inr (IntV (trunc_toward_zero x))"
| "astype_int_cell (IntV i) = Inr (IntV i)"

fun astype_int :: "cell list \<Rightarrow> py_error + cell list" where
  "astype_int [] = Inr []"
| "astype_int (c # cs) =
     (case astype_int_cell c of
        Inl e \<Rightarrow> Inl e
      | Inr v \<Rightarrow> (case astype_int cs of Inl e \<Rightarrow> Inl e | Inr vs \<Rightarrow> Inr (v # vs)))"

section \<open>The loader (\<^verbatim>\<open>load_data\<close>, lines 6 to 17)\<close>

definition required_cols :: "string list" where
  "required_cols =
     [''station'', ''year'', ''month'', ''power_kwh'', ''fee_yuan'', ''price_yuan_per_kwh'']"

definition load_data :: "(string \<Rightarrow> real option) \<Rightarrow> (string \<rightharpoonup> frame) \<Rightarrow> py_error + frame" where
  "load_data parse fs =
     (case read_csv fs ''power_data.csv'' of
        Inl e \<Rightarrow> Inl e
      | Inr df \<Rightarrow>
          (let missing = filter (\<lambda>col. col \<notin> set (columns df)) required_cols in
           if missing \<noteq> [] then Inl (ValueError missing)
           else
             (case getitem df ''year'' of
                Inl e \<Rightarrow> Inl e
              | Inr ys \<Rightarrow>
                  (let df1 = setitem df ''year'' (map (to_numeric parse) ys);
                       df2 = dropna df1 ''year''
                   in (case getitem df2 ''year'' of
                         Inl e \<Rightarrow> Inl e
                       | Inr ys2 \<Rightarrow>
                           (case astype_int ys2 of
                              Inl e \<Rightarrow> Inl e
                            | Inr ys3 \<Rightarrow> Inr (setitem df2 ''year'' ys3)))))))"

text \<open>
  What the loader does to one row that it keeps: the year cell is made numeric and
  cast to an integer.
\<close>

definition year_numeric :: "(string \<Rightarrow> real option) \<Rightarrow> row \<Rightarrow> bool" where
  "year_numeric parse r = (to_numeric parse (r ''year'') \<noteq> NaN)"

definition int_of_numeric :: "cell \<Rightarrow> cell" where
  "int_of_numeric c = (case c of Num x \<Rightarrow> IntV (trunc_toward_zero x) | _ \<Rightarrow> c)"

definition clean_row :: "(string \<Rightarrow> real option) \<Rightarrow> row \<Rightarrow> row" where
  "clean_row parse r = r(''year'' := int_of_numeric (to_numeric parse (r ''year'')))"

text \<open>The cells that are integers.\<close>

definition is_integer :: "cell \<Rightarrow> bool" where
  "is_integer c = (case c of IntV n \<Rightarrow> True | _ \<Rightarrow> False)"

section \<open>The query (lines 61 to 100)\<close>

text \<open>
  \<^verbatim>\<open>series.isin(values)\<close> gives one truth value per cell; \<^verbatim>\<open>&\<close> combines two masks
  position by position; \<^verbatim>\<open>df[mask]\<close> keeps the rows whose position holds \<open>True\<close>.
  The selections are the lists the three multiselect widgets return.
\<close>

definition isin :: "cell list \<Rightarrow> cell list \<Rightarrow> bool list" where
  "isin col vals = map (\<lambda>c. c \<in> set vals) col"

definition mask_and :: "bool list \<Rightarrow> bool list \<Rightarrow> bool list" where
  "mask_and a b = map2 (\<and>) a b"

definition select_rows :: "frame \<Rightarrow> bool list \<Rightarrow> frame" where
  "select_rows df keep = df\<lparr>rows := map fst (filter snd (zip (rows df) keep))\<rparr>"

text \<open>Lines 63 to 67.\<close>

definition query :: "frame \<Rightarrow> cell list \<Rightarrow> cell list \<Rightarrow> cell list \<Rightarrow> py_error + frame" where
  "query df stations years months =
     (case getitem df ''station'' of
        Inl e \<Rightarrow> Inl e
      | Inr s \<Rightarrow>
          (case getitem df ''year'' of
             Inl e \<Rightarrow> Inl e
           | Inr y \<Rightarrow>
               (case getitem df ''month'' of
                  Inl e \<Rightarrow> Inl e
                | Inr m \<Rightarrow>
                    Inr (select_rows df
                           (mask_and (mask_and (isin s stations) (isin y years))
                              (isin m months))))))"

text \<open>The row predicate the three masks amount to.\<close>

definition selected :: "cell list \<Rightarrow> cell list \<Rightarrow> cell list \<Rightarrow> row \<Rightarrow> bool" where
  "selected stations years months r =
     (r ''station'' \<in> set stations \<and> r ''year'' \<in> set years \<and> r ''month'' \<in> set months)"

text \<open>\<^verbatim>\<open>df.empty\<close>: one of the two axes has length 0.\<close>

definition empty :: "frame \<Rightarrow> bool" where
  "empty df = (columns df = [] \<or> rows df = [])"

text \<open>
  \<^verbatim>\<open>series.sum()\<close> skips missing values and adds the numbers. A string among the
  cells makes the summary of lines 77 to 84 raise (in the sum, in the comparison or
  division of line 79, or in the formatting of line 83); the model reports that
  as \<^verbatim>\<open>TypeError\<close> of the sum.
\<close>

fun series_sum :: "cell list \<Rightarrow> py_error + real" where
  "series_sum [] = Inr 0"
| "series_sum (NaN # cs) = series_sum cs"
| "series_sum (Str s # cs) = Inl TypeError"
| "series_sum (Num x # cs) = (case series_sum cs of Inl e \<Rightarrow> Inl e | Inr t \<Rightarrow> Inr (x + t))"
| "series_sum (IntV i # cs) =
     (case series_sum cs of Inl e \<Rightarrow> Inl e | Inr t \<Rightarrow> Inr (of_int i + t))"

text \<open>Python's \<^verbatim>\<open>a / b\<close>.\<close>

definition py_div :: "real \<Rightarrow> real \<Rightarrow> py_error + real" where
  "py_div a b = (if b = 0 then Inl ZeroDivisionError else Inr (a / b))"

record metrics =
  total_power :: real
  total_fee :: real
  avg_price :: real

text \<open>Lines 77 to 79.\<close>

definition summarize :: "frame \<Rightarrow> py_error + metrics" where
  "summarize result =
     (case getitem result ''power_kwh'' of
        Inl e \<Rightarrow> Inl e
      | Inr p \<Rightarrow>
          (case series_sum p of
             Inl e \<Rightarrow> Inl e
           | Inr tp \<Rightarrow>
               (case getitem result ''fee_yuan'' of
                  Inl e \<Rightarrow> Inl e
                | Inr f \<Rightarrow>
                    (case series_sum f of
                       Inl e \<Rightarrow> Inl e
                     | Inr tf \<Rightarrow>
                         (case (if tp > 0 then py_div tf tp else Inr 0) of
                            Inl e \<Rightarrow> Inl e
                          | Inr avg \<Rightarrow>
                              Inr \<lparr> total_power = tp, total_fee = tf, avg_price = avg \<rparr>)))))"

text \<open>
  The number a cell adds to a sum, and the cells a sum accepts: numbers and missing
  values (a missing value adds nothing).
\<close>

definition cell_value :: "cell \<Rightarrow> real" where
  "cell_value c = (case c of Num x \<Rightarrow> x | IntV i \<Rightarrow> of_int i | _ \<Rightarrow> 0)"

definition summable :: "cell \<Rightarrow> bool" where
  "summable c = (case c of Str s \<Rightarrow> False | _ \<Rightarrow> True)"

definition column_summable :: "frame \<Rightarrow> string \<Rightarrow> bool" where
  "column_summable df name = list_all (\<lambda>r. summable (r name)) (rows df)"

text \<open>
  \<^verbatim>\<open>df.to_csv(index=False).encode('utf-8')\<close> (lines 90 to 92): one record for the
  header and one per row, the fields of a record joined by commas, every record
  ended by a newline. How a value is printed as a field (quoting included) is
  pandas' business: it is the parameter \<open>fmt\<close>; a column label is printed as the
  string it is. Strings being UTF-8 bytes already, the encoding step changes nothing.
\<close>

fun join :: "string \<Rightarrow> string list \<Rightarrow> string" where
  "join sep [] = []"
| "join sep [x] = x"
| "join sep (x # y # ys) = x @ sep @ join sep (y # ys)"

definition csv_records :: "(cell \<Rightarrow> string) \<Rightarrow> frame \<Rightarrow> string list list" where
  "csv_records fmt df =
     map (\<lambda>c. fmt (Str c)) (columns df) # map (\<lambda>r. map (\<lambda>c. fmt (r c)) (columns df)) (rows df)"

definition csv_line :: "string list \<Rightarrow> string" where
  "csv_line fs = join '','' fs @ [CHR 0x0A]"

definition to_csv :: "(cell \<Rightarrow> string) \<Rightarrow> frame \<Rightarrow> string" where
  "to_csv fmt df = concat (map csv_line (csv_records fmt df))"

definition convert_df_to_csv :: "(cell \<Rightarrow> string) \<Rightarrow> frame \<Rightarrow> string" where
  "convert_df_to_csv fmt df = to_csv fmt df"

record download =
  data :: string
  file_name :: string
  mime :: string

text \<open>
  What a click on the query button puts on the page: the warning of line 71, or the
  result table, its three metrics, the record count of line 87 and the download
  button of lines 95 to 100.
\<close>

datatype view = Warning | Shown frame metrics nat download

text \<open>
  The handler of the button (lines 61 to 100), with the session's table passed in
  and handed back: the first component is the table after the click, the second
  what the click shows, or the exception it raises.
\<close>

definition on_click ::
  "(cell \<Rightarrow> string) \<Rightarrow> frame \<Rightarrow> cell list \<Rightarrow> cell list \<Rightarrow> cell list \<Rightarrow> frame \<times> (py_error + view)"
where
  "on_click fmt df stations years months =
     (df,
      case query df stations years months of
        Inl e \<Rightarrow> Inl e
      | Inr result \<Rightarrow>
          if empty result then Inr Warning
          else
            (case summarize result of
               Inl e \<Rightarrow> Inl e
             | Inr m \<Rightarrow>
                 Inr (Shown result m (length (rows result))
                        \<lparr> data = convert_df_to_csv fmt result,
                          file_name = ''query_result.csv'',
                          mime = ''text/csv'' \<rparr>)))"

section \<open>The handler as the statements it runs\<close>

text \<open>
  The same handler, statement by statement, on the state a Python program has: the
  names of the module bound to values, and the frame objects those values refer to.
  A name holds a reference to a frame object, a float, a byte string or a function;
  a frame object lives at an address, and two names may hold the same address.
  Nothing below is specific to the name \<open>df\<close>: a statement that assigned to it, or
  changed the object it refers to, would show in the state.
\<close>

datatype pyval = Ref nat | Float real | Bytes string | Function

record session =
  vars :: "string \<rightharpoonup> pyval"
  heap :: "nat \<rightharpoonup> frame"
  next_addr :: nat

text \<open>Evaluating a name, and reading the frame a value refers to.\<close>

definition name_value :: "session \<Rightarrow> string \<Rightarrow> py_error + pyval" where
  "name_value s name = (case vars s name of None \<Rightarrow> Inl (NameError name) | Some v \<Rightarrow> Inr v)"

definition frame_at :: "session \<Rightarrow> pyval \<Rightarrow> py_error + frame" where
  "frame_at s v =
     (case v of
        Ref a \<Rightarrow> (case heap s a of None \<Rightarrow> Inl TypeError | Some f \<Rightarrow> Inr f)
      | _ \<Rightarrow> Inl TypeError)"

definition frame_of :: "session \<Rightarrow> string \<Rightarrow> py_error + frame" where
  "frame_of s name = (case name_value s name of Inl e \<Rightarrow> Inl e | Inr v \<Rightarrow> frame_at s v)"

text \<open>
  \<^verbatim>\<open>name = value\<close> binds the name. \<^verbatim>\<open>df[mask]\<close> builds a frame object of its own
  (boolean indexing copies the rows it keeps): the new object takes the next free
  address, and no object that exists is touched.
\<close>

definition assign :: "session \<Rightarrow> string \<Rightarrow> pyval \<Rightarrow> session" where
  "assign s name v = s\<lparr>vars := (vars s)(name \<mapsto> v)\<rparr>"

definition new_frame :: "session \<Rightarrow> frame \<Rightarrow> session" where
  "new_frame s f = s\<lparr>heap := (heap s)(next_addr s \<mapsto> f), next_addr := Suc (next_addr s)\<rparr>"

text \<open>
  The call \<^verbatim>\<open>convert_df_to_csv(result)\<close> of line 94: the parameter of the function
  is named \<open>df\<close>, and is bound to the argument in the scope of the call only, where
  it hides the module's \<open>df\<close>; the body reads the frame and returns the bytes.
\<close>

definition call_convert_df_to_csv :: "(cell \<Rightarrow> string) \<Rightarrow> session \<Rightarrow> pyval \<Rightarrow> py_error + string" where
  "call_convert_df_to_csv fmt s arg =
     (case frame_of (s\<lparr>vars := [''df'' \<mapsto> arg]\<rparr>) ''df'' of
        Inl e \<Rightarrow> Inl e
      | Inr f \<Rightarrow> Inr (convert_df_to_csv fmt f))"

text \<open>
  Lines 61 to 100, in order: line 63 reads \<open>df\<close>, builds the selected frame and
  binds \<open>result\<close>; lines 77 to 79 bind the three metrics; line 91 binds the
  function and line 94 binds \<open>csv\<close>. The state after the click comes first, then
  what the click shows or the exception it raises.
\<close>

definition click ::
  "(cell \<Rightarrow> string) \<Rightarrow> session \<Rightarrow> cell list \<Rightarrow> cell list \<Rightarrow> cell list
     \<Rightarrow> session \<times> (py_error + view)"
where
  "click fmt s stations years months =
     (case frame_of s ''df'' of
        Inl e \<Rightarrow> (s, Inl e)
      | Inr df \<Rightarrow>
          (case query df stations years months of
             Inl e \<Rightarrow> (s, Inl e)
           | Inr selection \<Rightarrow>
               (let s1 = assign (new_frame s selection) ''result'' (Ref (next_addr s)) in
                case frame_of s1 ''result'' of
                  Inl e \<Rightarrow> (s1, Inl e)
                | Inr result \<Rightarrow>
                    if empty result then (s1, Inr Warning)
                    else
                      (case getitem result ''power_kwh'' of
                         Inl e \<Rightarrow> (s1, Inl e)
                       | Inr p \<Rightarrow>
                      (case series_sum p of
                         Inl e \<Rightarrow> (s1, Inl e)
                       | Inr tp \<Rightarrow>
                      (let s2 = assign s1 ''total_power'' (Float tp) in
                       case getitem result ''fee_yuan'' of
                         Inl e \<Rightarrow> (s2, Inl e)
                       | Inr f \<Rightarrow>
                      (case series_sum f of
                         Inl e \<Rightarrow> (s2, Inl e)
                       | Inr tf \<Rightarrow>
                      (let s3 = assign s2 ''total_fee'' (Float tf) in
                       case (if tp > 0 then py_div tf tp else Inr 0) of
                         Inl e \<Rightarrow> (s3, Inl e)
                       | Inr avg \<Rightarrow>
                      (let s4 = assign (assign s3 ''avg_price'' (Float avg))
                                  ''convert_df_to_csv'' Function
                       in case name_value s4 ''result'' of
                            Inl e \<Rightarrow> (s4, Inl e)
                          | Inr arg \<Rightarrow>
                      (case call_convert_df_to_csv fmt s4 arg of
                         Inl e \<Rightarrow> (s4, Inl e)
                       | Inr bytes \<Rightarrow>
                           (assign s4 ''csv'' (Bytes bytes),
                            Inr (Shown result
                                   \<lparr> total_power = tp, total_fee = tf, avg_price = avg \<rparr>
                                   (length (rows result))
                                   \<lparr> data = bytes,
                                     file_name = ''query_result.csv'',
                                     mime = ''text/csv'' \<rparr>))))))))))))"

text \<open>
  A state is well formed when the objects in use lie below the next free address.
  \<open>unchanged s s'\<close>: the name \<open>df\<close> is bound in \<open>s'\<close> as in \<open>s\<close>, and every object of
  \<open>s\<close> is in \<open>s'\<close> as it was.
\<close>

definition wf_session :: "session \<Rightarrow> bool" where
  "wf_session s = (\<forall>a \<in> dom (heap s). a < next_addr s)"

definition unchanged :: "session \<Rightarrow> session \<Rightarrow> bool" where
  "unchanged s s' =
     (vars s' ''df'' = vars s ''df'' \<and> (\<forall>a \<in> dom (heap s). heap s' a = heap s a))"

section \<open>The coverage report (line 105)\<close>

text \<open>
  \<^verbatim>\<open>df.groupby(['station', 'year']).size()\<close>: the pairs of labels that occur, each
  with the number of rows that carry it; a row with a missing label belongs to no
  group. \<^verbatim>\<open>.unstack(fill_value=0)\<close> lays the counts out as a matrix, one line per
  station and one column per year, with the fill value where a pair has no group.
  pandas presents the labels sorted; the model keeps them in order of first
  appearance, and reads the matrix by label (\<open>cell_at\<close>), so nothing here depends on
  the order of the labels.
\<close>

definition group_keys :: "frame \<Rightarrow> string \<Rightarrow> string \<Rightarrow> (cell \<times> cell) list" where
  "group_keys df a b =
     map (\<lambda>r. (r a, r b)) (filter (\<lambda>r. r a \<noteq> NaN \<and> r b \<noteq> NaN) (rows df))"

definition groupby_size :: "frame \<Rightarrow> string \<Rightarrow> string \<Rightarrow> py_error + ((cell \<times> cell) \<times> nat) list" where
  "groupby_size df a b =
     (if a \<notin> set (columns df) then Inl (KeyError a)
      else if b \<notin> set (columns df) then Inl (KeyError b)
      else Inr (map (\<lambda>k. (k, count_list (group_keys df a b) k)) (remdups (group_keys df a b))))"

record matrix =
  index :: "cell list"
  mcolumns :: "cell list"
  mvalues :: "nat list list"

definition unstack :: "nat \<Rightarrow> ((cell \<times> cell) \<times> nat) list \<Rightarrow> matrix" where
  "unstack fill_value groups =
     (let idx = remdups (map (\<lambda>g. fst (fst g)) groups);
          cols = remdups (map (\<lambda>g. snd (fst g)) groups)
      in \<lparr> index = idx,
           mcolumns = cols,
           mvalues =
             map (\<lambda>s. map (\<lambda>y. case map_of groups (s, y) of None \<Rightarrow> fill_value | Some n \<Rightarrow> n) cols)
               idx \<rparr>)"

definition coverage :: "frame \<Rightarrow> py_error + matrix" where
  "coverage df =
     (case groupby_size df ''station'' ''year'' of
        Inl e \<Rightarrow> Inl e
      | Inr groups \<Rightarrow> Inr (unstack 0 groups))"

text \<open>Reading the matrix by its labels: the cell on line \<open>s\<close> in column \<open>y\<close>, if both exist.\<close>

fun position :: "'a \<Rightarrow> 'a list \<Rightarrow> nat" where
  "position x [] = 0"
| "position x (y # ys) = (if x = y then 0 else Suc (position x ys))"

definition cell_at :: "matrix \<Rightarrow> cell \<Rightarrow> cell \<Rightarrow> nat option" where
  "cell_at m s y =
     (if s \<in> set (index m) \<and> y \<in> set (mcolumns m)
      then Some (mvalues m ! position s (index m) ! position y (mcolumns m))
      else None)"

text \<open>The number of rows of a table with a given station and year.\<close>

definition count_rows :: "frame \<Rightarrow> cell \<Rightarrow> cell \<Rightarrow> nat" where
  "count_rows df s y = length (filter (\<lambda>r. r ''station'' = s \<and> r ''year'' = y) (rows df))"

section \<open>Instances used to run the model\<close>

text \<open>
  A reader of plain decimal numerals (an optional sign, digits, and optionally a
  point followed by digits), to stand for \<open>parse\<close> where the model is run: pandas
  reads every such string as the number it denotes. Anything else is not a number
  for this reader.
\<close>

definition digit_val :: "char \<Rightarrow> nat option" where
  "digit_val c =
     (if c \<in> set ''0123456789'' then Some (position c ''0123456789'') else None)"

fun digits_val :: "nat \<Rightarrow> string \<Rightarrow> nat option" where
  "digits_val acc [] = Some acc"
| "digits_val acc (c # cs) =
     (case digit_val c of None \<Rightarrow> None | Some d \<Rightarrow> digits_val (10 * acc + d) cs)"

definition unsigned_decimal :: "string \<Rightarrow> real option" where
  "unsigned_decimal s =
     (let ip = takeWhile (\<lambda>c. c \<noteq> CHR ''.'') s;
          rest = dropWhile (\<lambda>c. c \<noteq> CHR ''.'') s
      in if ip = [] then None
         else
           (case digits_val 0 ip of
              None \<Rightarrow> None
            | Some n \<Rightarrow>
                (case rest of
                   [] \<Rightarrow> Some (of_nat n)
                 | _ # fp \<Rightarrow>
                     (case digits_val 0 fp of
                        None \<Rightarrow> None
                      | Some f \<Rightarrow> Some (of_nat n + of_nat f / 10 ^ length fp)))))"

definition parse_decimal :: "string \<Rightarrow> real option" where
  "parse_decimal s =
     (case s of
        [] \<Rightarrow> None
      | c # cs \<Rightarrow>
          if c = CHR ''-'' then map_option uminus (unsigned_decimal cs)
          else if c = CHR ''+'' then unsigned_decimal cs
          else unsigned_decimal s)"

text \<open>
  A printer of fields to stand for \<open>fmt\<close> where the model is run. It prints a
  string as it is (so it is right for strings that need no quoting), an integer in
  decimal, a non-negative float with at most one decimal digit as Python prints it
  (\<open>100.0\<close>, \<open>0.5\<close>), and a missing value as the empty field; any other float is
  outside its range and prints as the empty field too.
\<close>

definition digit_char :: "nat \<Rightarrow> char" where
  "digit_char d = ''0123456789'' ! d"

fun show_nat :: "nat \<Rightarrow> string" where
  "show_nat n = (if n < 10 then [digit_char n] else show_nat (n div 10) @ [digit_char (n mod 10)])"

declare show_nat.simps [simp del]

definition fmt_plain :: "cell \<Rightarrow> string" where
  "fmt_plain c =
     (case c of
        NaN \<Rightarrow> []
      | Str s \<Rightarrow> s
      | IntV i \<Rightarrow> (if 0 \<le> i then show_nat (nat i) else CHR ''-'' # show_nat (nat (- i)))
      | Num x \<Rightarrow>
          (if 0 \<le> x \<and> of_int \<lfloor>10 * x\<rfloor> = 10 * x
           then show_nat (nat \<lfloor>x\<rfloor>) @ ''.'' @ [digit_char (nat (\<lfloor>10 * x\<rfloor> mod 10))]
           else []))"

text \<open>A bare row, and the labels of the six required columns as a header.\<close>

definition blank :: row where
  "blank = (\<lambda>_. NaN)"

definition record_row :: "string \<Rightarrow> cell \<Rightarrow> string \<Rightarrow> real \<Rightarrow> real \<Rightarrow> real \<Rightarrow> row" where
  "record_row st yr mo p f pr =
     blank(''station'' := Str st, ''year'' := yr, ''month'' := Str mo,
           ''power_kwh'' := Num p, ''fee_yuan'' := Num f, ''price_yuan_per_kwh'' := Num pr)"

definition table :: "row list \<Rightarrow> string \<rightharpoonup> frame" where
  "table rs = [''power_data.csv'' \<mapsto> \<lparr> columns = required_cols, rows = rs \<rparr>]"

text \<open>The month label "3" followed by the character for month, and the malformed year.\<close>

definition month3 :: string where
  "month3 = [CHR ''3'', CHR 0xE6, CHR 0x9C, CHR 0x88]"

definition year_2023_suffixed :: string where
  "year_2023_suffixed = ''2023'' @ [CHR 0xE5, CHR 0xB9, CHR 0xB4]"

text \<open>
  A file of four records. The second has a malformed year and the fourth a year
  that is a number but not an integer; the first and the third are the two records
  of station A in March, with energies 100 and 200 and fees 50 and 80.
\<close>

definition sample_rows :: "row list" where
  "sample_rows =
     [record_row ''A'' (Str ''2023'') month3 100 50 0.5,
      record_row ''A'' (Str year_2023_suffixed) month3 999 999 1,
      record_row ''A'' (Str ''2022'') month3 200 80 0.4,
      record_row ''B'' (Str ''2023.5'') month3 0 0 0]"

definition loaded_sample :: frame where
  "loaded_sample =
     \<lparr> columns = required_cols,
       rows = [record_row ''A'' (IntV 2023) month3 100 50 0.5,
               record_row ''A'' (IntV 2022) month3 200 80 0.4,
               record_row ''B'' (IntV 2023) month3 0 0 0] \<rparr>"

text \<open>
  A table for the coverage report: station A with 6 records in 2022 and 12 in 2023,
  and station B with 3 records in 2022 and none in 2023.
\<close>

definition coverage_rows :: "row list" where
  "coverage_rows =
     replicate 6 (record_row ''A'' (IntV 2022) month3 1 1 1)
     @ replicate 12 (record_row ''A'' (IntV 2023) month3 1 1 1)
     @ replicate 3 (record_row ''B'' (IntV 2022) month3 1 1 1)"

text \<open>A session after the load: \<open>df\<close> refers to the loaded sample, at address 0.\<close>

definition sample_session :: session where
  "sample_session = \<lparr> vars = [''df'' \<mapsto> Ref 0], heap = [0 \<mapsto> loaded_sample], next_addr = 1 \<rparr>"

section \<open>What the loader computes\<close>

lemma to_numeric_not_Str: "to_numeric parse c \<noteq> Str s"
  by (simp add: to_numeric_def split: cell.splits option.splits)

lemma astype_int_numeric:
  "\<forall>c \<in> set cs. c \<noteq> NaN \<and> (\<forall>s. c \<noteq> Str s) \<Longrightarrow> astype_int cs = Inr (map int_of_numeric cs)"
proof (induction cs)
  case Nil
  then show ?case by simp
next
  case (Cons c cs)
  then show ?case by (cases c) (simp_all add: int_of_numeric_def)
qed

lemma map2_update_column:
  "map2 (\<lambda>r v. r(n := v)) rs (map g (map (\<lambda>r. r n) rs)) = map (\<lambda>r. r(n := g (r n))) rs"
  by (induction rs) simp_all

lemma getitem_present:
  "n \<in> set (columns df) \<Longrightarrow> getitem df n = Inr (map (\<lambda>r. r n) (rows df))"
  by (simp add: getitem_def)

lemma setitem_present:
  "n \<in> set (columns df) \<Longrightarrow>
     setitem df n (map g (map (\<lambda>r. r n) (rows df))) = df\<lparr>rows := map (\<lambda>r. r(n := g (r n))) (rows df)\<rparr>"
  unfolding setitem_def map2_update_column by simp

lemma missing_empty_iff:
  "filter (\<lambda>col. col \<notin> S) xs = [] \<longleftrightarrow> set xs \<subseteq> S"
  by (auto simp: filter_empty_conv)

lemma year_required: "''year'' \<in> set required_cols"
  by (simp add: required_cols_def)

lemma clean_rows:
  "map (\<lambda>r. r(n := g (r n))) (filter (\<lambda>r. r n \<noteq> NaN) (map (\<lambda>r. r(n := f (r n))) rs))
   = map (\<lambda>r. r(n := g (f (r n)))) (filter (\<lambda>r. f (r n) \<noteq> NaN) rs)"
  by (induction rs) (auto simp: fun_eq_iff)

text \<open>
  The loader on a file that exists: the schema error when a required column is
  absent, and otherwise the table with the rows of non-numeric year dropped and
  the year of the others cast to an integer. Columns and row order are kept.
\<close>

lemma load_data_table:
  assumes csv: "fs ''power_data.csv'' = Some df"
  shows "load_data parse fs =
     (let missing = filter (\<lambda>col. col \<notin> set (columns df)) required_cols in
      if missing \<noteq> [] then Inl (ValueError missing)
      else Inr (df\<lparr>rows := map (clean_row parse) (filter (year_numeric parse) (rows df))\<rparr>))"
proof (cases "filter (\<lambda>col. col \<notin> set (columns df)) required_cols = []")
  case False
  then show ?thesis using csv by (simp add: load_data_def read_csv_def Let_def)
next
  case True
  then have yr: "''year'' \<in> set (columns df)"
    using year_required by (auto simp: missing_empty_iff)
  define df1 where "df1 = setitem df ''year'' (map (to_numeric parse) (map (\<lambda>r. r ''year'') (rows df)))"
  define df2 where "df2 = dropna df1 ''year''"
  have df1: "df1 = df\<lparr>rows := map (\<lambda>r. r(''year'' := to_numeric parse (r ''year''))) (rows df)\<rparr>"
    unfolding df1_def by (rule setitem_present [OF yr])
  have yr2: "''year'' \<in> set (columns df2)"
    using yr by (simp add: df2_def df1 dropna_def)
  have num: "\<forall>c \<in> set (map (\<lambda>r. r ''year'') (rows df2)). c \<noteq> NaN \<and> (\<forall>s. c \<noteq> Str s)"
    by (auto simp: df2_def df1 dropna_def to_numeric_not_Str)
  have cast: "astype_int (map (\<lambda>r. r ''year'') (rows df2))
      = Inr (map int_of_numeric (map (\<lambda>r. r ''year'') (rows df2)))"
    by (rule astype_int_numeric [OF num])
  have final: "setitem df2 ''year'' (map int_of_numeric (map (\<lambda>r. r ''year'') (rows df2)))
      = df\<lparr>rows := map (clean_row parse) (filter (year_numeric parse) (rows df))\<rparr>"
    unfolding setitem_present [OF yr2]
    unfolding df2_def df1 dropna_def clean_row_def [abs_def] year_numeric_def [abs_def]
    by (simp add: clean_rows)
  have "load_data parse fs
      = Inr (setitem df2 ''year'' (map int_of_numeric (map (\<lambda>r. r ''year'') (rows df2))))"
    by (simp only: load_data_def read_csv_def csv option.case sum.case Let_def True simp_thms
        if_False getitem_present [OF yr] df1_def [symmetric] df2_def [symmetric]
        getitem_present [OF yr2] cast)
  then have "load_data parse fs
      = Inr (df\<lparr>rows := map (clean_row parse) (filter (year_numeric parse) (rows df))\<rparr>)"
    by (simp only: final)
  then show ?thesis by (simp only: True Let_def simp_thms if_False)
qed

lemma load_data_no_file:
  "fs ''power_data.csv'' = None \<Longrightarrow> load_data parse fs = Inl (FileNotFoundError ''power_data.csv'')"
  by (simp add: load_data_def read_csv_def)

text \<open>A loaded table comes from a file with all six required columns.\<close>

lemma load_data_Inr:
  assumes "load_data parse fs = Inr df"
  obtains src where "fs ''power_data.csv'' = Some src"
    and "set required_cols \<subseteq> set (columns src)"
    and "df = src\<lparr>rows := map (clean_row parse) (filter (year_numeric parse) (rows src))\<rparr>"
proof (cases "fs ''power_data.csv''")
  case None
  then show ?thesis using assms by (simp add: load_data_no_file)
next
  case (Some src)
  show ?thesis
  proof (cases "filter (\<lambda>col. col \<notin> set (columns src)) required_cols = []")
    case True
    then have "set required_cols \<subseteq> set (columns src)"
      by (simp only: missing_empty_iff)
    moreover have "df = src\<lparr>rows := map (clean_row parse) (filter (year_numeric parse) (rows src))\<rparr>"
      using assms True Some by (simp add: load_data_table [of fs src parse])
    ultimately show ?thesis using that Some by blast
  next
    case False
    then show ?thesis using assms Some by (simp add: load_data_table [of fs src parse] Let_def)
  qed
qed

lemma loaded_columns:
  assumes "load_data parse fs = Inr df"
  shows "set required_cols \<subseteq> set (columns df)"
  using assms by (elim load_data_Inr) simp

section \<open>What the query computes\<close>

lemma mask_and_map:
  "mask_and (map p rs) (map q rs) = map (\<lambda>r. p r \<and> q r) rs"
  unfolding mask_and_def by (induction rs) simp_all

lemma isin_map: "isin (map (\<lambda>r. r n) rs) vals = map (\<lambda>r. r n \<in> set vals) rs"
  unfolding isin_def by (induction rs) simp_all

lemma select_rows_map:
  "select_rows df (map p (rows df)) = df\<lparr>rows := filter p (rows df)\<rparr>"
proof -
  have "map fst (filter snd (zip rs (map p rs))) = filter p rs" for rs :: "row list"
    by (induction rs) simp_all
  then show ?thesis by (simp add: select_rows_def)
qed

lemma query_selected:
  assumes "''station'' \<in> set (columns df)" "''year'' \<in> set (columns df)"
    "''month'' \<in> set (columns df)"
  shows "query df stations years months
    = Inr (df\<lparr>rows := filter (selected stations years months) (rows df)\<rparr>)"
proof -
  have "select_rows df
          (mask_and (mask_and (isin (map (\<lambda>r. r ''station'') (rows df)) stations)
                       (isin (map (\<lambda>r. r ''year'') (rows df)) years))
             (isin (map (\<lambda>r. r ''month'') (rows df)) months))
        = df\<lparr>rows := filter (selected stations years months) (rows df)\<rparr>"
    unfolding isin_map mask_and_map select_rows_map selected_def [abs_def]
    by simp
  then show ?thesis
    by (simp only: query_def getitem_present [OF assms(1)] getitem_present [OF assms(2)]
        getitem_present [OF assms(3)] sum.case)
qed

lemma query_loaded:
  assumes "load_data parse fs = Inr df"
  shows "query df stations years months
    = Inr (df\<lparr>rows := filter (selected stations years months) (rows df)\<rparr>)"
proof -
  have "set required_cols \<subseteq> set (columns df)"
    using assms by (rule loaded_columns)
  then show ?thesis
    by (intro query_selected) (auto simp: required_cols_def)
qed

section \<open>What the summary computes\<close>

lemma loaded_not_empty_columns:
  assumes "load_data parse fs = Inr df"
  shows "columns df \<noteq> []"
  using loaded_columns [OF assms] by (auto simp: required_cols_def)

lemma series_sum_summable:
  "list_all summable cs \<Longrightarrow> series_sum cs = Inr (sum_list (map cell_value cs))"
proof (induction cs)
  case Nil
  then show ?case by simp
next
  case (Cons c cs)
  then show ?case by (cases c) (simp_all add: summable_def cell_value_def)
qed

lemma column_sum:
  assumes "name \<in> set (columns df)" "column_summable df name"
  shows "getitem df name = Inr (map (\<lambda>r. r name) (rows df))"
    and "series_sum (map (\<lambda>r. r name) (rows df)) = Inr (\<Sum>r\<leftarrow>rows df. cell_value (r name))"
proof -
  show "getitem df name = Inr (map (\<lambda>r. r name) (rows df))"
    using assms(1) by (rule getitem_present)
  have "list_all summable (map (\<lambda>r. r name) (rows df))"
    using assms(2) by (simp add: column_summable_def list_all_iff)
  then show "series_sum (map (\<lambda>r. r name) (rows df)) = Inr (\<Sum>r\<leftarrow>rows df. cell_value (r name))"
    by (simp add: series_sum_summable comp_def)
qed

lemma summarize_summable:
  assumes "''power_kwh'' \<in> set (columns df)" "''fee_yuan'' \<in> set (columns df)"
    and "column_summable df ''power_kwh''" "column_summable df ''fee_yuan''"
  shows "summarize df =
     Inr \<lparr> total_power = (\<Sum>r\<leftarrow>rows df. cell_value (r ''power_kwh'')),
           total_fee = (\<Sum>r\<leftarrow>rows df. cell_value (r ''fee_yuan'')),
           avg_price =
             (if (\<Sum>r\<leftarrow>rows df. cell_value (r ''power_kwh'')) > 0
              then (\<Sum>r\<leftarrow>rows df. cell_value (r ''fee_yuan''))
                   / (\<Sum>r\<leftarrow>rows df. cell_value (r ''power_kwh''))
              else 0) \<rparr>"
proof -
  note p = column_sum [OF assms(1,3)]
  note f = column_sum [OF assms(2,4)]
  show ?thesis
    by (simp add: summarize_def p f py_div_def)
qed


lemma series_sum_not_zero_division: "series_sum cs \<noteq> Inl ZeroDivisionError"
  by (induction cs rule: series_sum.induct) (auto split: sum.splits)

lemma summarize_never_divides_by_zero: "summarize df \<noteq> Inl ZeroDivisionError"
  using series_sum_not_zero_division
  by (auto simp: summarize_def getitem_def py_div_def split: sum.splits if_splits)

section \<open>The sample file, loaded\<close>

lemma parse_decimal_2023: "parse_decimal ''2023'' = Some 2023"
  by (simp add: parse_decimal_def unsigned_decimal_def digit_val_def)

lemma parse_decimal_2022: "parse_decimal ''2022'' = Some 2022"
  by (simp add: parse_decimal_def unsigned_decimal_def digit_val_def)

lemma parse_decimal_2023_5: "parse_decimal ''2023.5'' = Some 2023.5"
  by (simp add: parse_decimal_def unsigned_decimal_def digit_val_def)

lemma parse_decimal_suffixed: "parse_decimal year_2023_suffixed = None"
  by (simp add: parse_decimal_def unsigned_decimal_def digit_val_def year_2023_suffixed_def)

lemma record_row_cells:
  "record_row st yr mo p f pr ''station'' = Str st"
  "record_row st yr mo p f pr ''year'' = yr"
  "record_row st yr mo p f pr ''month'' = Str mo"
  "record_row st yr mo p f pr ''power_kwh'' = Num p"
  "record_row st yr mo p f pr ''fee_yuan'' = Num f"
  "record_row st yr mo p f pr ''price_yuan_per_kwh'' = Num pr"
  by (simp_all add: record_row_def)

lemma record_row_set_year:
  "(record_row st yr mo p f pr)(''year'' := yr') = record_row st yr' mo p f pr"
  by (auto simp: record_row_def fun_eq_iff)

lemma table_file:
  "table rs ''power_data.csv'' = Some \<lparr> columns = required_cols, rows = rs \<rparr>"
  by (simp add: table_def)

lemma load_sample: "load_data parse_decimal (table sample_rows) = Inr loaded_sample"
  unfolding load_data_table [of "table sample_rows" _ parse_decimal, OF table_file]
  by (simp add: sample_rows_def loaded_sample_def clean_row_def year_numeric_def to_numeric_def
      int_of_numeric_def trunc_toward_zero_def record_row_set_year record_row_cells
      parse_decimal_2023 parse_decimal_2022 parse_decimal_2023_5 parse_decimal_suffixed)

lemma sample_query_2022_2023:
  "query loaded_sample [Str ''A''] [IntV 2022, IntV 2023] [Str month3]
     = Inr \<lparr> columns = required_cols,
             rows = [record_row ''A'' (IntV 2023) month3 100 50 0.5,
                     record_row ''A'' (IntV 2022) month3 200 80 0.4] \<rparr>"
  using query_loaded [OF load_sample, of "[Str ''A'']" "[IntV 2022, IntV 2023]" "[Str month3]"]
  by (simp add: loaded_sample_def selected_def record_row_cells)

lemma sample_query_B:
  "query loaded_sample [Str ''B''] [IntV 2023] [Str month3]
     = Inr \<lparr> columns = required_cols, rows = [record_row ''B'' (IntV 2023) month3 0 0 0] \<rparr>"
  using query_loaded [OF load_sample, of "[Str ''B'']" "[IntV 2023]" "[Str month3]"]
  by (simp add: loaded_sample_def selected_def record_row_cells)


lemma clean_row_year_is_integer:
  "year_numeric parse r \<Longrightarrow> is_integer (clean_row parse r ''year'')"
  by (cases "r ''year''")
     (auto simp: year_numeric_def clean_row_def to_numeric_def int_of_numeric_def is_integer_def
       split: option.splits)

lemma loaded_years_integer:
  assumes "load_data parse fs = Inr df"
  shows "\<forall>r \<in> set (rows df). is_integer (r ''year'')"
  using assms by (elim load_data_Inr) (auto simp: clean_row_year_is_integer)

lemma load_table:
  "load_data parse (table rs)
     = Inr \<lparr> columns = required_cols, rows = map (clean_row parse) (filter (year_numeric parse) rs) \<rparr>"
  using load_data_table [of "table rs" "\<lparr> columns = required_cols, rows = rs \<rparr>" parse]
  by (simp add: table_file)


section \<open>What the coverage report computes, and more of the sample file\<close>

lemma fmt_plain_examples:
  "fmt_plain (Num 100) = ''100.0''" "fmt_plain (Num 50) = ''50.0''" "fmt_plain (Num 0.5) = ''0.5''"
  "fmt_plain (Num (1 / 2)) = ''0.5''"
  "fmt_plain (IntV 2023) = ''2023''" "fmt_plain (Str s) = s"
  by (simp_all add: fmt_plain_def show_nat.simps digit_char_def)

lemma sample_query_2023:
  "query loaded_sample [Str ''A''] [IntV 2023] [Str month3]
     = Inr \<lparr> columns = required_cols, rows = [record_row ''A'' (IntV 2023) month3 100 50 0.5] \<rparr>"
  using query_loaded [OF load_sample, of "[Str ''A'']" "[IntV 2023]" "[Str month3]"]
  by (simp add: loaded_sample_def selected_def record_row_cells)

lemma sample_query_none:
  "query loaded_sample [Str ''B''] [IntV 2022] [Str month3] = Inr (loaded_sample\<lparr>rows := []\<rparr>)"
  using query_loaded [OF load_sample, of "[Str ''B'']" "[IntV 2022]" "[Str month3]"]
  by (simp add: loaded_sample_def selected_def record_row_cells)

lemma position_nth: "x \<in> set xs \<Longrightarrow> position x xs < length xs \<and> xs ! position x xs = x"
  by (induction xs) auto

lemma count_keys:
  assumes "s \<noteq> NaN" "y \<noteq> NaN"
  shows "count_list (group_keys df a b) (s, y)
    = length (filter (\<lambda>r. r a = s \<and> r b = y) (rows df))"
proof -
  have "count_list (map (\<lambda>r. (r a, r b)) (filter (\<lambda>r. r a \<noteq> NaN \<and> r b \<noteq> NaN) rs)) (s, y)
      = length (filter (\<lambda>r. r a = s \<and> r b = y) rs)" for rs :: "row list"
    using assms by (induction rs) auto
  then show ?thesis by (simp add: group_keys_def)
qed

lemma unstack_value:
  assumes "s \<in> set (index (unstack v (map (\<lambda>k. (k, f k)) ks)))"
    and "y \<in> set (mcolumns (unstack v (map (\<lambda>k. (k, f k)) ks)))"
  shows "cell_at (unstack v (map (\<lambda>k. (k, f k)) ks)) s y
    = Some (if (s, y) \<in> set ks then f (s, y) else v)"
proof -
  let ?m = "unstack v (map (\<lambda>k. (k, f k)) ks)"
  have mo: "map_of (map (\<lambda>k. (k, f k)) ks) (s, y) = (if (s, y) \<in> set ks then Some (f (s, y)) else None)"
    by (simp add: map_of_map_restrict restrict_map_def)
  have i: "position s (index ?m) < length (index ?m)" "index ?m ! position s (index ?m) = s"
    using position_nth [OF assms(1)] by simp_all
  have j: "position y (mcolumns ?m) < length (mcolumns ?m)"
    "mcolumns ?m ! position y (mcolumns ?m) = y"
    using position_nth [OF assms(2)] by simp_all
  have "mvalues ?m ! position s (index ?m) ! position y (mcolumns ?m)
      = (case map_of (map (\<lambda>k. (k, f k)) ks)
               (index ?m ! position s (index ?m), mcolumns ?m ! position y (mcolumns ?m)) of
           None \<Rightarrow> v | Some n \<Rightarrow> n)"
    using i(1) j(1) by (simp add: unstack_def Let_def)
  then show ?thesis
    using assms by (simp add: cell_at_def i(2) j(2) mo)
qed

lemma load_clean_table:
  assumes "\<forall>r \<in> set rs. is_integer (r ''year'')"
  shows "load_data parse (table rs) = Inr \<lparr> columns = required_cols, rows = rs \<rparr>"
proof -
  have c: "clean_row parse r = r \<and> year_numeric parse r" if "is_integer (r ''year'')" for r
    using that
    by (cases "r ''year''")
       (auto simp: is_integer_def clean_row_def year_numeric_def to_numeric_def int_of_numeric_def)
  have "map (clean_row parse) (filter (year_numeric parse) rs) = rs"
    using assms by (induction rs) (simp_all add: c)
  then show ?thesis by (simp add: load_table)
qed

lemma labels_present:
  assumes "\<forall>r \<in> R. g r \<noteq> NaN"
  shows "f ` {r \<in> R. f r \<noteq> NaN \<and> g r \<noteq> NaN} = {s. s \<noteq> NaN \<and> (\<exists>r \<in> R. f r = s)}"
  using assms by auto

lemma years_present:
  assumes "\<forall>r \<in> R. g r \<noteq> NaN"
  shows "g ` {r \<in> R. f r \<noteq> NaN \<and> g r \<noteq> NaN} = {y. \<exists>r \<in> R. f r \<noteq> NaN \<and> g r = y}"
  using assms by auto

section \<open>What the statements of the handler do to the state\<close>

text \<open>
  Each statement of the handler keeps the binding of \<open>df\<close> and the objects in use:
  an assignment to another name, and a new object at a fresh address. The view the
  statements produce is that of \<open>on_click\<close>.
\<close>

lemma frame_of_df:
  "vars s ''df'' = Some (Ref a) \<Longrightarrow> heap s a = Some df \<Longrightarrow> frame_of s ''df'' = Inr df"
  by (simp add: frame_of_def name_value_def frame_at_def)

lemma unchanged_refl: "unchanged s s"
  by (simp add: unchanged_def)

lemma unchanged_assign:
  "name \<noteq> ''df'' \<Longrightarrow> unchanged s s' \<Longrightarrow> unchanged s (assign s' name v)"
  by (simp add: unchanged_def assign_def)

lemma unchanged_new_frame:
  "wf_session s \<Longrightarrow> unchanged s (new_frame s f)"
  by (auto simp: unchanged_def new_frame_def wf_session_def)

lemma wf_assign: "wf_session s \<Longrightarrow> wf_session (assign s name v)"
  by (simp add: wf_session_def assign_def)

lemma wf_new_frame: "wf_session s \<Longrightarrow> wf_session (new_frame s f)"
  by (auto simp: wf_session_def new_frame_def less_Suc_eq)

lemma frame_of_new_result:
  "frame_of (assign (new_frame s f) ''result'' (Ref (next_addr s))) ''result'' = Inr f"
  by (simp add: frame_of_def name_value_def frame_at_def assign_def new_frame_def)

lemma click_unchanged:
  assumes "wf_session s"
  shows "unchanged s (fst (click fmt s stations years months))
       \<and> wf_session (fst (click fmt s stations years months))"
  using assms
  by (auto simp: click_def Let_def frame_of_new_result unchanged_refl
      intro!: unchanged_assign unchanged_new_frame wf_assign wf_new_frame
      split: sum.splits)

lemma click_view:
  assumes "frame_of s ''df'' = Inr df"
  shows "snd (click fmt s stations years months) = snd (on_click fmt df stations years months)"
  using assms
  by (auto simp: click_def on_click_def Let_def frame_of_new_result summarize_def
      call_convert_df_to_csv_def name_value_def frame_of_def frame_at_def assign_def new_frame_def
      split: sum.splits)

lemma sample_session_wf:
  "wf_session sample_session" "vars sample_session ''df'' = Some (Ref 0)"
  "heap sample_session 0 = Some loaded_sample"
  by (simp_all add: wf_session_def sample_session_def)

lemma sample_click_binds_result:
  "vars (fst (click fmt_plain sample_session [Str ''A''] [IntV 2023] [Str month3])) ''result''
     = Some (Ref 1)
   \<and> heap (fst (click fmt_plain sample_session [Str ''A''] [IntV 2023] [Str month3])) 1
     = Some \<lparr> columns = required_cols, rows = [record_row ''A'' (IntV 2023) month3 100 50 0.5] \<rparr>"
proof -
  have df: "frame_of sample_session ''df'' = Inr loaded_sample"
    by (rule frame_of_df) (simp_all add: sample_session_def)
  show ?thesis
    by (simp add: click_def df sample_query_2023 Let_def frame_of_new_result empty_def
        getitem_def record_row_cells required_cols_def py_div_def name_value_def
        call_convert_df_to_csv_def frame_of_def frame_at_def assign_def new_frame_def
        sample_session_def)
qed

text \<open>
  \<open>unchanged\<close> tells a write from none: rebinding \<open>df\<close>, or storing into the object
  it refers to (as \<^verbatim>\<open>df["year"] = ...\<close> of the loader does), is not \<open>unchanged\<close>.
\<close>

lemma unchanged_detects_writes:
  "\<not> unchanged sample_session (assign sample_session ''df'' (Float 0))"
  "\<not> unchanged sample_session
       (sample_session\<lparr>heap := (heap sample_session)(0 \<mapsto> setitem loaded_sample ''year'' [])\<rparr>)"
  by (simp_all add: unchanged_def assign_def sample_session_def setitem_def loaded_sample_def)

section \<open>The claims\<close>

text \<open>
  C1. For a loaded table and any three selections, the query returns the table with
  exactly the rows whose station is among the selected stations and whose year is
  among the selected years and whose month is among the selected months, in their
  original order (\<open>filter\<close> keeps the order of the rows it keeps).
\<close>

theorem query_is_selected_subsequence:
  assumes "load_data parse fs = Inr df"
  shows "query df stations years months
     = Inr (df\<lparr>rows := filter (\<lambda>r. r ''station'' \<in> set stations \<and> r ''year'' \<in> set years
                                   \<and> r ''month'' \<in> set months) (rows df)\<rparr>)"
  using query_loaded [OF assms, of stations years months]
  by (simp only: selected_def [abs_def])

text \<open>
  The sample file holds one record of station A, year 2023, month 3: the query for
  it returns that record and no other.
\<close>

theorem query_is_selected_subsequence_witness:
  "load_data parse_decimal (table sample_rows) = Inr loaded_sample
   \<and> query loaded_sample [Str ''A''] [IntV 2023] [Str month3]
       = Inr \<lparr> columns = required_cols,
               rows = [record_row ''A'' (IntV 2023) month3 100 50 0.5] \<rparr>"
  using query_is_selected_subsequence [OF load_sample, of "[Str ''A'']" "[IntV 2023]" "[Str month3]"]
    load_sample
  by (simp add: loaded_sample_def record_row_cells)

text \<open>
  C3. For a file that holds a table, the loader fails with the error that lists
  the missing columns exactly when one of the six required columns is absent; the
  list is that of the absent required columns, in the order of the required ones;
  a table without \<open>fee_yuan\<close> gives that error with \<open>fee_yuan\<close> in its list.
\<close>

theorem load_data_schema_error:
  assumes csv: "fs ''power_data.csv'' = Some df"
  shows "(load_data parse fs = Inl (ValueError missing) \<longleftrightarrow>
            missing \<noteq> [] \<and> missing = filter (\<lambda>col. col \<notin> set (columns df)) required_cols)
       \<and> ((\<exists>m. load_data parse fs = Inl (ValueError m)) \<longleftrightarrow>
            (\<exists>col \<in> set required_cols. col \<notin> set (columns df)))
       \<and> set (filter (\<lambda>col. col \<notin> set (columns df)) required_cols)
            = set required_cols - set (columns df)
       \<and> (''fee_yuan'' \<notin> set (columns df) \<longrightarrow>
            (\<exists>m. load_data parse fs = Inl (ValueError m) \<and> ''fee_yuan'' \<in> set m))"
proof -
  let ?missing = "filter (\<lambda>col. col \<notin> set (columns df)) required_cols"
  have ld: "load_data parse fs =
      (if ?missing \<noteq> [] then Inl (ValueError ?missing)
       else Inr (df\<lparr>rows := map (clean_row parse) (filter (year_numeric parse) (rows df))\<rparr>))"
    using load_data_table [of fs df parse] csv by (simp only: Let_def)
  have a: "load_data parse fs = Inl (ValueError missing) \<longleftrightarrow>
            missing \<noteq> [] \<and> missing = ?missing"
    unfolding ld by auto
  have b: "(\<exists>m. load_data parse fs = Inl (ValueError m)) \<longleftrightarrow>
            (\<exists>col \<in> set required_cols. col \<notin> set (columns df))"
    unfolding ld by (auto simp: filter_empty_conv)
  have c: "set ?missing = set required_cols - set (columns df)"
    by auto
  have d: "''fee_yuan'' \<notin> set (columns df) \<longrightarrow>
            (\<exists>m. load_data parse fs = Inl (ValueError m) \<and> ''fee_yuan'' \<in> set m)"
  proof
    assume "''fee_yuan'' \<notin> set (columns df)"
    then have "''fee_yuan'' \<in> set ?missing"
      by (simp add: required_cols_def)
    moreover from this have "?missing \<noteq> []"
      by (auto simp: filter_empty_conv)
    ultimately show "\<exists>m. load_data parse fs = Inl (ValueError m) \<and> ''fee_yuan'' \<in> set m"
      unfolding ld by auto
  qed
  from a b c d show ?thesis by blast
qed

text \<open>A file with every required column but \<open>fee_yuan\<close>: the error lists \<open>fee_yuan\<close>.\<close>

theorem load_data_schema_error_witness:
  "[''power_data.csv'' \<mapsto>
      \<lparr> columns = [''station'', ''year'', ''month'', ''power_kwh'', ''price_yuan_per_kwh''],
        rows = [blank(''station'' := Str ''A'', ''year'' := IntV 2023)] \<rparr>] ''power_data.csv''
    = Some \<lparr> columns = [''station'', ''year'', ''month'', ''power_kwh'', ''price_yuan_per_kwh''],
        rows = [blank(''station'' := Str ''A'', ''year'' := IntV 2023)] \<rparr>
   \<and> load_data parse_decimal
        [''power_data.csv'' \<mapsto>
          \<lparr> columns = [''station'', ''year'', ''month'', ''power_kwh'', ''price_yuan_per_kwh''],
            rows = [blank(''station'' := Str ''A'', ''year'' := IntV 2023)] \<rparr>]
      = Inl (ValueError [''fee_yuan''])"
proof -
  let ?df = "\<lparr> columns = [''station'', ''year'', ''month'', ''power_kwh'', ''price_yuan_per_kwh''],
        rows = [blank(''station'' := Str ''A'', ''year'' := IntV 2023)] \<rparr>"
  have csv: "[''power_data.csv'' \<mapsto> ?df] ''power_data.csv'' = Some ?df"
    by simp
  have "[''fee_yuan''] \<noteq> [] \<and>
      [''fee_yuan''] = filter (\<lambda>col. col \<notin> set (columns ?df)) required_cols"
    by (simp add: required_cols_def)
  with load_data_schema_error [of "[''power_data.csv'' \<mapsto> ?df]" ?df parse_decimal "[''fee_yuan'']", OF csv]
  have "load_data parse_decimal [''power_data.csv'' \<mapsto> ?df] = Inl (ValueError [''fee_yuan''])"
    by blast
  with csv show ?thesis by blast
qed

text \<open>
  C2. For a loaded table and a query whose result is not empty and whose energy and
  fee cells are numbers or missing, the summary succeeds: the total energy is the
  sum of the \<open>power_kwh\<close> cells of the result rows and the total fee the sum of
  their \<open>fee_yuan\<close> cells (a missing cell adds nothing), and the average price is
  the total fee divided by the total energy when the total energy is positive and
  0 otherwise; these are the metrics the click shows. On no table at all does the
  summary raise a division by zero.
\<close>

theorem summary_metrics:
  assumes loaded: "load_data parse fs = Inr df"
    and q: "query df stations years months = Inr result"
    and nonempty: "\<not> empty result"
    and power: "column_summable result ''power_kwh''"
    and fee: "column_summable result ''fee_yuan''"
  shows "summarize result =
           Inr \<lparr> total_power = (\<Sum>r\<leftarrow>rows result. cell_value (r ''power_kwh'')),
                 total_fee = (\<Sum>r\<leftarrow>rows result. cell_value (r ''fee_yuan'')),
                 avg_price =
                   (if (\<Sum>r\<leftarrow>rows result. cell_value (r ''power_kwh'')) > 0
                    then (\<Sum>r\<leftarrow>rows result. cell_value (r ''fee_yuan''))
                         / (\<Sum>r\<leftarrow>rows result. cell_value (r ''power_kwh''))
                    else 0) \<rparr>
       \<and> (\<exists>m d. summarize result = Inr m
              \<and> snd (on_click fmt df stations years months)
                  = Inr (Shown result m (length (rows result)) d))
       \<and> (\<forall>any. summarize any \<noteq> Inl ZeroDivisionError)"
proof -
  have cols: "set required_cols \<subseteq> set (columns df)"
    using loaded by (rule loaded_columns)
  have "result = df\<lparr>rows := filter (selected stations years months) (rows df)\<rparr>"
    using q query_loaded [OF loaded, of stations years months] by simp
  then have "columns result = columns df" by simp
  with cols have p: "''power_kwh'' \<in> set (columns result)"
    and f: "''fee_yuan'' \<in> set (columns result)"
    by (auto simp: required_cols_def)
  note s = summarize_summable [OF p f power fee]
  have click: "\<exists>m d. summarize result = Inr m
      \<and> snd (on_click fmt df stations years months) = Inr (Shown result m (length (rows result)) d)"
    using q nonempty by (simp add: on_click_def s)
  have "\<forall>any. summarize any \<noteq> Inl ZeroDivisionError"
    by (rule allI) (rule summarize_never_divides_by_zero)
  with s click show ?thesis by simp
qed

text \<open>
  On the sample file: energies 100 and 200 with fees 50 and 80 give the totals 300
  and 130 and the average price 130 / 300; a total energy of 0 gives the average
  price 0.
\<close>

theorem summary_metrics_witness:
  "load_data parse_decimal (table sample_rows) = Inr loaded_sample
   \<and> query loaded_sample [Str ''A''] [IntV 2022, IntV 2023] [Str month3]
     = Inr \<lparr> columns = required_cols,
             rows = [record_row ''A'' (IntV 2023) month3 100 50 0.5,
                     record_row ''A'' (IntV 2022) month3 200 80 0.4] \<rparr>
   \<and> summarize \<lparr> columns = required_cols,
               rows = [record_row ''A'' (IntV 2023) month3 100 50 0.5,
                       record_row ''A'' (IntV 2022) month3 200 80 0.4] \<rparr>
     = Inr \<lparr> total_power = 300, total_fee = 130, avg_price = 130 / 300 \<rparr>
   \<and> summarize \<lparr> columns = required_cols, rows = [record_row ''B'' (IntV 2023) month3 0 0 0] \<rparr>
     = Inr \<lparr> total_power = 0, total_fee = 0, avg_price = 0 \<rparr>"
proof -
  let ?r1 = "\<lparr> columns = required_cols,
               rows = [record_row ''A'' (IntV 2023) month3 100 50 0.5,
                       record_row ''A'' (IntV 2022) month3 200 80 0.4] \<rparr>"
  let ?r2 = "\<lparr> columns = required_cols, rows = [record_row ''B'' (IntV 2023) month3 0 0 0] \<rparr>"
  have a: "\<not> empty ?r1" "column_summable ?r1 ''power_kwh''" "column_summable ?r1 ''fee_yuan''"
    by (simp_all add: empty_def column_summable_def summable_def record_row_cells required_cols_def)
  have b: "\<not> empty ?r2" "column_summable ?r2 ''power_kwh''" "column_summable ?r2 ''fee_yuan''"
    by (simp_all add: empty_def column_summable_def summable_def record_row_cells required_cols_def)
  show ?thesis
    using summary_metrics [OF load_sample sample_query_2022_2023 a, of fmt_plain]
      summary_metrics [OF load_sample sample_query_B b, of fmt_plain]
      load_sample sample_query_2022_2023
    by (simp add: cell_value_def record_row_cells)
qed

text \<open>
  C5. For a loaded table, if one of the three selections is empty, the query
  returns no row, and the click shows the warning.
\<close>

theorem empty_selection_matches_nothing:
  assumes "load_data parse fs = Inr df"
    and "stations = [] \<or> years = [] \<or> months = []"
  shows "query df stations years months = Inr (df\<lparr>rows := []\<rparr>)
       \<and> snd (on_click fmt df stations years months) = Inr Warning"
proof -
  have "filter (selected stations years months) (rows df) = []"
    using assms(2) by (auto simp: selected_def filter_empty_conv)
  then have q: "query df stations years months = Inr (df\<lparr>rows := []\<rparr>)"
    using query_loaded [OF assms(1), of stations years months] by simp
  then show ?thesis by (simp add: on_click_def empty_def)
qed

theorem empty_selection_matches_nothing_witness:
  "load_data parse_decimal (table sample_rows) = Inr loaded_sample
   \<and> query loaded_sample [Str ''A''] [] [Str month3] = Inr (loaded_sample\<lparr>rows := []\<rparr>)
   \<and> snd (on_click fmt_plain loaded_sample [Str ''A''] [] [Str month3]) = Inr Warning"
  using empty_selection_matches_nothing [OF load_sample, of "[Str ''A'']" "[]" "[Str month3]" fmt_plain]
    load_sample
  by simp


text \<open>
  C9. Running the handler has no effect on the loaded table. In a well-formed state
  where \<open>df\<close> refers to a table, after the click \<open>df\<close> refers to the same object,
  that object holds the same table (every row and every column), and every other
  object in use is as it was; the click binds only other names and creates only new
  objects. A second click in the state the first one left, with the same
  selections, shows what the first showed, which is what \<open>on_click\<close> computes from
  the table.
\<close>

theorem query_has_no_side_effect:
  assumes wf: "wf_session s"
    and name: "vars s ''df'' = Some (Ref a)"
    and obj: "heap s a = Some df"
  shows "vars (fst (click fmt s stations years months)) ''df'' = Some (Ref a)
       \<and> heap (fst (click fmt s stations years months)) a = Some df
       \<and> frame_of (fst (click fmt s stations years months)) ''df'' = Inr df
       \<and> (\<forall>b \<in> dom (heap s). heap (fst (click fmt s stations years months)) b = heap s b)
       \<and> snd (click fmt (fst (click fmt s stations years months)) stations years months)
           = snd (click fmt s stations years months)
       \<and> snd (click fmt s stations years months) = snd (on_click fmt df stations years months)"
proof -
  let ?s' = "fst (click fmt s stations years months)"
  have u: "unchanged s ?s'"
    using click_unchanged [OF wf] by (rule conjunct1)
  have a: "a \<in> dom (heap s)" using obj by auto
  from u name have n': "vars ?s' ''df'' = Some (Ref a)"
    by (simp add: unchanged_def)
  from u a obj have o': "heap ?s' a = Some df"
    by (simp add: unchanged_def)
  from u have all: "\<forall>b \<in> dom (heap s). heap ?s' b = heap s b"
    by (simp add: unchanged_def)
  have f: "frame_of s ''df'' = Inr df" using name obj by (rule frame_of_df)
  have f': "frame_of ?s' ''df'' = Inr df" using n' o' by (rule frame_of_df)
  have v: "snd (click fmt s stations years months) = snd (on_click fmt df stations years months)"
    using f by (rule click_view)
  have v': "snd (click fmt ?s' stations years months) = snd (on_click fmt df stations years months)"
    using f' by (rule click_view)
  from n' o' f' all v v' show ?thesis by simp
qed

text \<open>
  On the sample session, the query for station A, 2023, month 3: the click binds
  \<open>result\<close> to a new object at address 1, and \<open>df\<close> still refers to the loaded
  sample at address 0.
\<close>

theorem query_has_no_side_effect_witness:
  "wf_session sample_session
   \<and> vars sample_session ''df'' = Some (Ref 0)
   \<and> heap sample_session 0 = Some loaded_sample
   \<and> vars (fst (click fmt_plain sample_session [Str ''A''] [IntV 2023] [Str month3])) ''df''
       = Some (Ref 0)
   \<and> heap (fst (click fmt_plain sample_session [Str ''A''] [IntV 2023] [Str month3])) 0
       = Some loaded_sample
   \<and> vars (fst (click fmt_plain sample_session [Str ''A''] [IntV 2023] [Str month3])) ''result''
       = Some (Ref 1)
   \<and> snd (click fmt_plain
            (fst (click fmt_plain sample_session [Str ''A''] [IntV 2023] [Str month3]))
            [Str ''A''] [IntV 2023] [Str month3])
       = snd (click fmt_plain sample_session [Str ''A''] [IntV 2023] [Str month3])"
  using query_has_no_side_effect [OF sample_session_wf,
      of fmt_plain "[Str ''A'']" "[IntV 2023]" "[Str month3]"]
    sample_session_wf sample_click_binds_result
  by simp

text \<open>
  C4. After a successful load every row of the table has an integer year: the rows
  are those of the file whose year is numeric, in order, each with its year cast to
  an integer. Every query on the loaded table returns rows with an integer year.
  For a reader of numbers that reads "2023" as 2023 and rejects "2023" followed by
  the character for year, a file of one row with each of these years loads as the
  single row of year "2023", its year being the integer 2023.
\<close>

theorem loaded_years_are_integers:
  assumes loaded: "load_data parse fs = Inr df"
  shows "(\<forall>r \<in> set (rows df). is_integer (r ''year''))
       \<and> (\<exists>src. fs ''power_data.csv'' = Some src
              \<and> rows df = map (clean_row parse) (filter (year_numeric parse) (rows src)))
       \<and> (\<forall>stations years months result.
              query df stations years months = Inr result
              \<longrightarrow> (\<forall>r \<in> set (rows result). is_integer (r ''year'')))
       \<and> (parse year_2023_suffixed = None \<and> parse ''2023'' = Some 2023
              \<and> bad ''year'' = Str year_2023_suffixed \<and> good ''year'' = Str ''2023''
            \<longrightarrow> load_data parse (table [bad, good])
                 = Inr \<lparr> columns = required_cols, rows = [good(''year'' := IntV 2023)] \<rparr>)"
proof -
  have a: "\<forall>r \<in> set (rows df). is_integer (r ''year'')"
    using loaded by (rule loaded_years_integer)
  have b: "\<exists>src. fs ''power_data.csv'' = Some src
      \<and> rows df = map (clean_row parse) (filter (year_numeric parse) (rows src))"
    using loaded by (elim load_data_Inr) simp
  have c: "\<forall>stations years months result.
      query df stations years months = Inr result
      \<longrightarrow> (\<forall>r \<in> set (rows result). is_integer (r ''year''))"
  proof (intro allI impI)
    fix stations years months result
    assume "query df stations years months = Inr result"
    then have "result = df\<lparr>rows := filter (selected stations years months) (rows df)\<rparr>"
      using query_loaded [OF loaded, of stations years months] by simp
    then show "\<forall>r \<in> set (rows result). is_integer (r ''year'')"
      using a by simp
  qed
  have d: "parse year_2023_suffixed = None \<and> parse ''2023'' = Some 2023
        \<and> bad ''year'' = Str year_2023_suffixed \<and> good ''year'' = Str ''2023''
      \<longrightarrow> load_data parse (table [bad, good])
           = Inr \<lparr> columns = required_cols, rows = [good(''year'' := IntV 2023)] \<rparr>"
    by (simp add: load_table year_numeric_def clean_row_def to_numeric_def int_of_numeric_def
        trunc_toward_zero_def)
  from a b c d show ?thesis by blast
qed


text \<open>The sample file, and the file of the two rows, with the reader of decimal numerals.\<close>

theorem loaded_years_are_integers_witness:
  "load_data parse_decimal (table sample_rows) = Inr loaded_sample
   \<and> list_all (\<lambda>r. is_integer (r ''year'')) (rows loaded_sample)
   \<and> load_data parse_decimal
       (table [record_row ''A'' (Str year_2023_suffixed) month3 999 999 1,
               record_row ''A'' (Str ''2023'') month3 100 50 0.5])
     = Inr \<lparr> columns = required_cols, rows = [record_row ''A'' (IntV 2023) month3 100 50 0.5] \<rparr>"
  using loaded_years_are_integers [OF load_sample,
      of "record_row ''A'' (Str year_2023_suffixed) month3 999 999 1"
         "record_row ''A'' (Str ''2023'') month3 100 50 0.5"]
    load_sample
  by (simp add: list_all_iff parse_decimal_suffixed parse_decimal_2023 record_row_cells
      record_row_set_year)





text \<open>
  C6, as the program has it: the export exists for a result that is not empty. For a
  loaded table and a query whose result is not empty (and can be summarised), the
  click offers a download named \<open>query_result.csv\<close> whose data is the CSV of the
  result: the header of the loaded table's columns in their order, then one record
  per selected row in the table's order, each with the cells in column order, every
  record ended by a newline. The conversion itself, on a table with no rows, gives
  the header record alone.
\<close>

theorem export_of_nonempty_result:
  assumes loaded: "load_data parse fs = Inr df"
    and q: "query df stations years months = Inr result"
    and nonempty: "\<not> empty result"
    and power: "column_summable result ''power_kwh''"
    and fee: "column_summable result ''fee_yuan''"
  shows "(\<exists>m. snd (on_click fmt df stations years months)
               = Inr (Shown result m (length (rows result))
                        \<lparr> data = convert_df_to_csv fmt result,
                          file_name = ''query_result.csv'',
                          mime = ''text/csv'' \<rparr>))
       \<and> columns result = columns df
       \<and> csv_records fmt result
           = map (\<lambda>c. fmt (Str c)) (columns df)
             # map (\<lambda>r. map (\<lambda>c. fmt (r c)) (columns df))
                 (filter (\<lambda>r. r ''station'' \<in> set stations \<and> r ''year'' \<in> set years
                               \<and> r ''month'' \<in> set months) (rows df))
       \<and> convert_df_to_csv fmt result = concat (map csv_line (csv_records fmt result))
       \<and> convert_df_to_csv fmt (df\<lparr>rows := []\<rparr>) = csv_line (map (\<lambda>c. fmt (Str c)) (columns df))"
proof -
  have cols: "set required_cols \<subseteq> set (columns df)"
    using loaded by (rule loaded_columns)
  have res: "result = df\<lparr>rows := filter (selected stations years months) (rows df)\<rparr>"
    using q query_loaded [OF loaded, of stations years months] by simp
  then have c: "columns result = columns df" by simp
  with cols have p: "''power_kwh'' \<in> set (columns result)"
    and f: "''fee_yuan'' \<in> set (columns result)"
    by (auto simp: required_cols_def)
  note s = summarize_summable [OF p f power fee]
  have click: "\<exists>m. snd (on_click fmt df stations years months)
               = Inr (Shown result m (length (rows result))
                        \<lparr> data = convert_df_to_csv fmt result,
                          file_name = ''query_result.csv'',
                          mime = ''text/csv'' \<rparr>)"
    using q nonempty by (simp add: on_click_def s)
  have recs: "csv_records fmt result
           = map (\<lambda>c. fmt (Str c)) (columns df)
             # map (\<lambda>r. map (\<lambda>c. fmt (r c)) (columns df))
                 (filter (\<lambda>r. r ''station'' \<in> set stations \<and> r ''year'' \<in> set years
                               \<and> r ''month'' \<in> set months) (rows df))"
    unfolding res by (simp add: csv_records_def selected_def [abs_def])
  have bytes: "convert_df_to_csv fmt result = concat (map csv_line (csv_records fmt result))"
    by (simp add: convert_df_to_csv_def to_csv_def)
  have header: "convert_df_to_csv fmt (df\<lparr>rows := []\<rparr>)
      = csv_line (map (\<lambda>c. fmt (Str c)) (columns df))"
    by (simp add: convert_df_to_csv_def to_csv_def csv_records_def)
  from click c recs bytes header show ?thesis by blast
qed

text \<open>
  The record of station A, 2023, month 3 of the sample file, exported: the header
  line and one line.
\<close>

theorem export_of_nonempty_result_witness:
  "load_data parse_decimal (table sample_rows) = Inr loaded_sample
   \<and> (\<exists>m. snd (on_click fmt_plain loaded_sample [Str ''A''] [IntV 2023] [Str month3])
          = Inr (Shown \<lparr> columns = required_cols,
                          rows = [record_row ''A'' (IntV 2023) month3 100 50 0.5] \<rparr>
                   m 1
                   \<lparr> data = ''station,year,month,power_kwh,fee_yuan,price_yuan_per_kwh''
                            @ [CHR 0x0A] @ ''A,2023,'' @ month3 @ '',100.0,50.0,0.5'' @ [CHR 0x0A],
                     file_name = ''query_result.csv'',
                     mime = ''text/csv'' \<rparr>))
   \<and> convert_df_to_csv fmt_plain (loaded_sample\<lparr>rows := []\<rparr>)
       = ''station,year,month,power_kwh,fee_yuan,price_yuan_per_kwh'' @ [CHR 0x0A]"
proof -
  let ?res = "\<lparr> columns = required_cols,
                 rows = [record_row ''A'' (IntV 2023) month3 100 50 0.5] \<rparr>"
  have a: "\<not> empty ?res" "column_summable ?res ''power_kwh''" "column_summable ?res ''fee_yuan''"
    by (simp_all add: empty_def column_summable_def summable_def record_row_cells required_cols_def)
  have csv: "concat (map csv_line (csv_records fmt_plain ?res))
      = ''station,year,month,power_kwh,fee_yuan,price_yuan_per_kwh''
          @ [CHR 0x0A] @ ''A,2023,'' @ month3 @ '',100.0,50.0,0.5'' @ [CHR 0x0A]"
    by (simp add: csv_records_def csv_line_def required_cols_def record_row_cells
        fmt_plain_examples month3_def)
  have hd: "csv_line (map (\<lambda>c. fmt_plain (Str c)) (columns loaded_sample))
      = ''station,year,month,power_kwh,fee_yuan,price_yuan_per_kwh'' @ [CHR 0x0A]"
    by (simp add: csv_line_def loaded_sample_def required_cols_def fmt_plain_examples)
  note t = export_of_nonempty_result [OF load_sample sample_query_2023 a, of fmt_plain]
  from t have click: "\<exists>m. snd (on_click fmt_plain loaded_sample [Str ''A''] [IntV 2023] [Str month3])
      = Inr (Shown ?res m (length (rows ?res))
               \<lparr> data = convert_df_to_csv fmt_plain ?res,
                 file_name = ''query_result.csv'',
                 mime = ''text/csv'' \<rparr>)"
    by (rule conjunct1)
  from t have bytes: "convert_df_to_csv fmt_plain ?res
      = concat (map csv_line (csv_records fmt_plain ?res))"
    by blast
  from t have header: "convert_df_to_csv fmt_plain (loaded_sample\<lparr>rows := []\<rparr>)
      = csv_line (map (\<lambda>c. fmt_plain (Str c)) (columns loaded_sample))"
    by blast
  show ?thesis
    using click [unfolded bytes csv] header [unfolded hd] load_sample by simp
qed

text \<open>
  C6 as stated (an export for every query result) fails where the result is empty:
  lines 70 and 71 show the warning, and the download button of lines 90 to 100 is in
  the other branch. On the sample file the query for station B in 2022 matches no
  row and the click shows the warning, with no download.
\<close>

theorem export_absent_for_empty_result:
  "load_data parse_decimal (table sample_rows) = Inr loaded_sample
   \<and> query loaded_sample [Str ''B''] [IntV 2022] [Str month3] = Inr (loaded_sample\<lparr>rows := []\<rparr>)
   \<and> snd (on_click fmt_plain loaded_sample [Str ''B''] [IntV 2022] [Str month3]) = Inr Warning
   \<and> \<not> (\<exists>result m n d.
          snd (on_click fmt_plain loaded_sample [Str ''B''] [IntV 2022] [Str month3])
            = Inr (Shown result m n d))"
  by (simp add: load_sample on_click_def sample_query_none empty_def)




text \<open>
  C8. For a loaded table the coverage report is a matrix whose lines are the
  stations of the table and whose columns are the years of the table; the cell of a
  station and a year is the number of rows with that station and that year, and it
  is 0 where the table has no such row.
\<close>

theorem coverage_counts:
  assumes loaded: "load_data parse fs = Inr df"
  shows "\<exists>m. coverage df = Inr m
       \<and> set (index m) = {s. s \<noteq> NaN \<and> (\<exists>r \<in> set (rows df). r ''station'' = s)}
       \<and> set (mcolumns m) = {y. \<exists>r \<in> set (rows df). r ''station'' \<noteq> NaN \<and> r ''year'' = y}
       \<and> (\<forall>s \<in> set (index m). \<forall>y \<in> set (mcolumns m).
            cell_at m s y = Some (count_rows df s y)
            \<and> ((\<forall>r \<in> set (rows df). \<not> (r ''station'' = s \<and> r ''year'' = y))
                \<longrightarrow> cell_at m s y = Some 0))"
proof -
  let ?ks = "group_keys df ''station'' ''year''"
  let ?groups = "map (\<lambda>k. (k, count_list ?ks k)) (remdups ?ks)"
  let ?m = "unstack 0 ?groups"
  have cols: "set required_cols \<subseteq> set (columns df)"
    using loaded by (rule loaded_columns)
  then have "''station'' \<in> set (columns df)" "''year'' \<in> set (columns df)"
    by (auto simp: required_cols_def)
  then have cov: "coverage df = Inr ?m"
    by (simp add: coverage_def groupby_size_def)
  have yr: "\<forall>r \<in> set (rows df). r ''year'' \<noteq> NaN"
    using loaded_years_integer [OF loaded] by (auto simp: is_integer_def)
  have idx: "set (index ?m) = {s. s \<noteq> NaN \<and> (\<exists>r \<in> set (rows df). r ''station'' = s)}"
  proof -
    have "set (index ?m) = (\<lambda>r. r ''station'') ` {r \<in> set (rows df). r ''station'' \<noteq> NaN \<and> r ''year'' \<noteq> NaN}"
      by (auto simp: unstack_def Let_def group_keys_def image_iff)
    also have "\<dots> = {s. s \<noteq> NaN \<and> (\<exists>r \<in> set (rows df). r ''station'' = s)}"
      using yr by (rule labels_present)
    finally show ?thesis .
  qed
  have mc: "set (mcolumns ?m) = {y. \<exists>r \<in> set (rows df). r ''station'' \<noteq> NaN \<and> r ''year'' = y}"
  proof -
    have "set (mcolumns ?m) = (\<lambda>r. r ''year'') ` {r \<in> set (rows df). r ''station'' \<noteq> NaN \<and> r ''year'' \<noteq> NaN}"
      by (auto simp: unstack_def Let_def group_keys_def image_iff)
    also have "\<dots> = {y. \<exists>r \<in> set (rows df). r ''station'' \<noteq> NaN \<and> r ''year'' = y}"
      using yr by (rule years_present)
    finally show ?thesis .
  qed
  have cells: "\<forall>s \<in> set (index ?m). \<forall>y \<in> set (mcolumns ?m).
      cell_at ?m s y = Some (count_rows df s y)
      \<and> ((\<forall>r \<in> set (rows df). \<not> (r ''station'' = s \<and> r ''year'' = y))
          \<longrightarrow> cell_at ?m s y = Some 0)"
  proof (intro ballI)
    fix s y
    assume s: "s \<in> set (index ?m)" and y: "y \<in> set (mcolumns ?m)"
    from s idx have s0: "s \<noteq> NaN" by simp
    from y mc yr have y0: "y \<noteq> NaN" by auto
    have cnt: "count_list ?ks (s, y) = count_rows df s y"
      using count_keys [OF s0 y0] by (simp add: count_rows_def)
    have "cell_at ?m s y = Some (if (s, y) \<in> set (remdups ?ks) then count_list ?ks (s, y) else 0)"
      using s y by (rule unstack_value)
    then have v: "cell_at ?m s y = Some (count_rows df s y)"
      by (auto simp: cnt [symmetric] count_list_0_iff)
    have "count_rows df s y = 0" if "\<forall>r \<in> set (rows df). \<not> (r ''station'' = s \<and> r ''year'' = y)"
      using that by (simp add: count_rows_def filter_empty_conv)
    with v show "cell_at ?m s y = Some (count_rows df s y)
      \<and> ((\<forall>r \<in> set (rows df). \<not> (r ''station'' = s \<and> r ''year'' = y))
          \<longrightarrow> cell_at ?m s y = Some 0)"
      by simp
  qed
  from cov idx mc cells show ?thesis by blast
qed

text \<open>
  Station A with 6 rows in 2022 and 12 in 2023, station B with 3 rows in 2022: the
  cells are 6, 12 and 3, and the cell of B in 2023 is 0.
\<close>

theorem coverage_counts_witness:
  "load_data parse_decimal (table coverage_rows)
     = Inr \<lparr> columns = required_cols, rows = coverage_rows \<rparr>
   \<and> (\<exists>m. coverage \<lparr> columns = required_cols, rows = coverage_rows \<rparr> = Inr m
        \<and> cell_at m (Str ''A'') (IntV 2022) = Some 6
        \<and> cell_at m (Str ''A'') (IntV 2023) = Some 12
        \<and> cell_at m (Str ''B'') (IntV 2022) = Some 3
        \<and> cell_at m (Str ''B'') (IntV 2023) = Some 0)"
proof -
  let ?df = "\<lparr> columns = required_cols, rows = coverage_rows \<rparr>"
  have ld: "load_data parse_decimal (table coverage_rows) = Inr ?df"
    by (rule load_clean_table) (auto simp: coverage_rows_def is_integer_def record_row_cells)
  from coverage_counts [OF ld] obtain m where cov: "coverage ?df = Inr m"
    and idx: "set (index m) = {s. s \<noteq> NaN \<and> (\<exists>r \<in> set (rows ?df). r ''station'' = s)}"
    and mc: "set (mcolumns m) = {y. \<exists>r \<in> set (rows ?df). r ''station'' \<noteq> NaN \<and> r ''year'' = y}"
    and cells: "\<forall>s \<in> set (index m). \<forall>y \<in> set (mcolumns m). cell_at m s y = Some (count_rows ?df s y)
            \<and> ((\<forall>r \<in> set (rows ?df). \<not> (r ''station'' = s \<and> r ''year'' = y))
                \<longrightarrow> cell_at m s y = Some 0)"
    by blast
  have a: "Str ''A'' \<in> set (index m)" "Str ''B'' \<in> set (index m)"
    unfolding idx by (auto simp: coverage_rows_def record_row_cells)
  have y: "IntV 2022 \<in> set (mcolumns m)" "IntV 2023 \<in> set (mcolumns m)"
    unfolding mc by (auto simp: coverage_rows_def record_row_cells)
  have n: "count_rows ?df (Str ''A'') (IntV 2022) = 6"
    "count_rows ?df (Str ''A'') (IntV 2023) = 12"
    "count_rows ?df (Str ''B'') (IntV 2022) = 3"
    "count_rows ?df (Str ''B'') (IntV 2023) = 0"
    by (simp_all add: count_rows_def coverage_rows_def record_row_cells)
  from cells a y n have "cell_at m (Str ''A'') (IntV 2022) = Some 6"
    "cell_at m (Str ''A'') (IntV 2023) = Some 12"
    "cell_at m (Str ''B'') (IntV 2022) = Some 3"
    "cell_at m (Str ''B'') (IntV 2023) = Some 0"
    by auto
  with ld cov show ?thesis by blast
qed

end
